theory Spec2Isabelle
  imports Main "HOL-Library.Sublist" "HOL-Library.Word"
begin

unbundle bit_operations_syntax

section \<open>JavaScript values\<close>

text \<open>
  Strings are lists of characters; an optional value (\<open>undefined\<close> or absent property) is
  \<open>None\<close>. JavaScript's truthiness of an optional string: \<open>undefined\<close> and the empty
  string are falsy, every other string is truthy.
\<close>

definition truthy :: "string option \<Rightarrow> bool" where
  "truthy v = (case v of None \<Rightarrow> False | Some s \<Rightarrow> s \<noteq> [])"

text \<open>\<open>v || d\<close> for an optional string \<open>v\<close> and a string \<open>d\<close>.\<close>

definition or_str :: "string option \<Rightarrow> string \<Rightarrow> string" where
  "or_str v d = (case v of None \<Rightarrow> d | Some s \<Rightarrow> if s = [] then d else s)"

text \<open>\<open>String.prototype.includes\<close>: the argument occurs as a contiguous substring.\<close>

definition str_includes :: "string \<Rightarrow> string \<Rightarrow> bool" where
  "str_includes s sub = sublist sub s"

text \<open>A number is an integer or \<open>NaN\<close>; \<open>NaN\<close> and \<open>0\<close> are falsy.\<close>

datatype js_number = NaN | Num int

definition truthy_num :: "js_number option \<Rightarrow> bool" where
  "truthy_num v = (case v of None \<Rightarrow> False | Some NaN \<Rightarrow> False | Some (Num i) \<Rightarrow> i \<noteq> 0)"

fun digits :: "nat \<Rightarrow> string" where
  "digits n = (if n < 10 then [char_of (48 + n)] else digits (n div 10) @ [char_of (48 + n mod 10)])"

text \<open>
  The decimal rendering of a number inside a template literal, for an integer of magnitude
  below \<open>10 ^ 21\<close>; JavaScript prints larger numbers in exponent form.
\<close>

definition number_to_string :: "js_number \<Rightarrow> string" where
  "number_to_string v =
     (case v of NaN \<Rightarrow> ''NaN''
      | Num i \<Rightarrow> if i < 0 then CHR ''-'' # digits (nat (- i)) else digits (nat i))"

section \<open>Typed errors (errors/vocafuse-error.ts)\<close>

type_synonym details = "(string \<times> string) list"

record ErrorContext =
  resourceType :: "string option"
  resourceId :: "string option"
  endpoint :: "string option"
  suggestion :: "string option"

text \<open>The class of an error object (its prototype and \<open>name\<close>).\<close>

datatype error_class =
    VocaFuseError | AuthenticationError | AuthorizationError | ValidationError
  | NotFoundError | ConflictError | RateLimitError | ServerError
  | VoicenoteNotFoundError | WebhookNotFoundError | TranscriptionNotFoundError
  | APIKeyNotFoundError

record vocafuse_error =
  error_class :: error_class
  message :: string
  statusCode :: "nat option"
  errorCode :: "string option"
  details :: "details option"
  err_context :: "ErrorContext option"
  retryAfter :: "js_number option"

definition new_VocaFuseError ::
  "string \<Rightarrow> nat option \<Rightarrow> string option \<Rightarrow> details option \<Rightarrow> ErrorContext option \<Rightarrow> vocafuse_error" where
  "new_VocaFuseError msg sc ec det ctx =
     \<lparr>error_class = VocaFuseError, message = msg, statusCode = sc, errorCode = ec,
      details = det, err_context = ctx, retryAfter = None\<rparr>"

text \<open>\<open>{...context, suggestion: context?.suggestion || dflt}\<close>\<close>

definition with_suggestion :: "ErrorContext option \<Rightarrow> string \<Rightarrow> ErrorContext" where
  "with_suggestion ctx dflt =
     (case ctx of
        None \<Rightarrow> \<lparr>resourceType = None, resourceId = None, endpoint = None, suggestion = Some dflt\<rparr>
      | Some c \<Rightarrow> c\<lparr>suggestion := Some (or_str (suggestion c) dflt)\<rparr>)"

definition new_AuthenticationError ::
  "string \<Rightarrow> string option \<Rightarrow> details option \<Rightarrow> ErrorContext option \<Rightarrow> vocafuse_error" where
  "new_AuthenticationError msg ec det ctx =
     (new_VocaFuseError msg (Some 401) ec det
        (Some (with_suggestion ctx ''Verify your API key and secret are correct and not expired.'')))
     \<lparr>error_class := AuthenticationError\<rparr>"

definition new_AuthorizationError ::
  "string \<Rightarrow> string option \<Rightarrow> details option \<Rightarrow> ErrorContext option \<Rightarrow> vocafuse_error" where
  "new_AuthorizationError msg ec det ctx =
     (new_VocaFuseError msg (Some 403) ec det
        (Some (with_suggestion ctx
           ''Check that your API key has the required permissions for this operation.'')))
     \<lparr>error_class := AuthorizationError\<rparr>"

definition new_ValidationError ::
  "string \<Rightarrow> string option \<Rightarrow> details option \<Rightarrow> ErrorContext option \<Rightarrow> vocafuse_error" where
  "new_ValidationError msg ec det ctx =
     (new_VocaFuseError msg (Some 400) ec det ctx)\<lparr>error_class := ValidationError\<rparr>"

definition new_NotFoundError ::
  "string \<Rightarrow> string option \<Rightarrow> details option \<Rightarrow> ErrorContext option \<Rightarrow> vocafuse_error" where
  "new_NotFoundError msg ec det ctx =
     (new_VocaFuseError msg (Some 404) ec det ctx)\<lparr>error_class := NotFoundError\<rparr>"

definition new_ConflictError ::
  "string \<Rightarrow> string option \<Rightarrow> details option \<Rightarrow> ErrorContext option \<Rightarrow> vocafuse_error" where
  "new_ConflictError msg ec det ctx =
     (new_VocaFuseError msg (Some 409) ec det ctx)\<lparr>error_class := ConflictError\<rparr>"

definition new_RateLimitError ::
  "string \<Rightarrow> string option \<Rightarrow> details option \<Rightarrow> ErrorContext option \<Rightarrow> js_number option
     \<Rightarrow> vocafuse_error" where
  "new_RateLimitError msg ec det ctx ra =
     (new_VocaFuseError msg (Some 429) ec det
        (Some (with_suggestion ctx
           (if truthy_num ra
            then ''Rate limit exceeded. Retry after '' @ number_to_string (the ra) @ '' seconds.''
            else ''Rate limit exceeded. Please reduce request frequency.''))))
     \<lparr>error_class := RateLimitError, retryAfter := ra\<rparr>"

definition new_ServerError ::
  "string \<Rightarrow> nat \<Rightarrow> string option \<Rightarrow> details option \<Rightarrow> ErrorContext option \<Rightarrow> vocafuse_error" where
  "new_ServerError msg sc ec det ctx =
     (new_VocaFuseError msg (Some sc) ec det
        (Some (with_suggestion ctx
           ''This is a server-side issue. Please try again later or contact support if it persists.'')))
     \<lparr>error_class := ServerError\<rparr>"

definition new_VoicenoteNotFoundError ::
  "string \<Rightarrow> string option \<Rightarrow> details option \<Rightarrow> string option \<Rightarrow> vocafuse_error" where
  "new_VoicenoteNotFoundError msg ec det voicenoteId =
     (new_NotFoundError msg ec det
        (Some \<lparr>resourceType = Some ''voicenote'', resourceId = voicenoteId, endpoint = None,
               suggestion = Some ''Verify the voicenote ID exists and belongs to your account.''\<rparr>))
     \<lparr>error_class := VoicenoteNotFoundError\<rparr>"

definition new_WebhookNotFoundError ::
  "string \<Rightarrow> string option \<Rightarrow> details option \<Rightarrow> string option \<Rightarrow> vocafuse_error" where
  "new_WebhookNotFoundError msg ec det webhookId =
     (new_NotFoundError msg ec det
        (Some \<lparr>resourceType = Some ''webhook'', resourceId = webhookId, endpoint = None,
               suggestion = Some
                 ''Verify the webhook ID exists. Use client.webhooks.list() to see available webhooks.''\<rparr>))
     \<lparr>error_class := WebhookNotFoundError\<rparr>"

definition new_TranscriptionNotFoundError ::
  "string \<Rightarrow> string option \<Rightarrow> details option \<Rightarrow> string option \<Rightarrow> vocafuse_error" where
  "new_TranscriptionNotFoundError msg ec det voicenoteId =
     (new_NotFoundError msg ec det
        (Some \<lparr>resourceType = Some ''transcription'', resourceId = voicenoteId, endpoint = None,
               suggestion = Some
                 ''The voicenote may still be processing. Check voicenote.status before accessing transcription.''\<rparr>))
     \<lparr>error_class := TranscriptionNotFoundError\<rparr>"

definition new_APIKeyNotFoundError ::
  "string \<Rightarrow> string option \<Rightarrow> details option \<Rightarrow> string option \<Rightarrow> vocafuse_error" where
  "new_APIKeyNotFoundError msg ec det apiKeyId =
     (new_NotFoundError msg ec det
        (Some \<lparr>resourceType = Some ''api_key'', resourceId = apiKeyId, endpoint = None,
               suggestion = Some
                 ''Verify the API key ID exists. Use client.apiKeys.list() to see available keys.''\<rparr>))
     \<lparr>error_class := APIKeyNotFoundError\<rparr>"

text \<open>\<open>this.context?.f\<close> for a field \<open>f\<close> of the context.\<close>

definition ctx_field :: "(ErrorContext \<Rightarrow> string option) \<Rightarrow> vocafuse_error \<Rightarrow> string option" where
  "ctx_field f e = (case err_context e of None \<Rightarrow> None | Some c \<Rightarrow> f c)"

text \<open>The getter \<open>friendlyMessage\<close>.\<close>

definition friendlyMessage :: "vocafuse_error \<Rightarrow> string" where
  "friendlyMessage e =
     (let msg = message e;
          msg = (if truthy (ctx_field resourceId e)
                 then msg @ '' ('' @ or_str (ctx_field resourceType e) ''resource'' @ '': ''
                        @ the (ctx_field resourceId e) @ '')''
                 else msg);
          msg = (if truthy (ctx_field suggestion e)
                 then msg @ ''. '' @ the (ctx_field suggestion e)
                 else msg)
      in msg)"

section \<open>Requests, responses and transport failures\<close>

text \<open>
  The request configuration that the transport carries; \<open>retryCount\<close> is the ad-hoc
  property \<open>_retryCount\<close> that the retry interceptor attaches to it.
\<close>

record request_config =
  http_method :: string
  url :: "string option"
  query :: "(string \<times> string) list"
  headers :: "(string \<times> string) list"
  body :: "string option"
  retryCount :: "nat option"

text \<open>The \<open>error\<close> object of an error response body \<open>{error: {message, code, details}}\<close>.\<close>

record error_body =
  eb_message :: "string option"
  eb_code :: "string option"
  eb_details :: "details option"

record axios_response =
  status :: nat
  data_error :: "error_body option"
  retry_after_header :: "string option"
  payload :: string

record axios_error =
  ae_message :: string
  ae_config :: "request_config option"
  ae_response :: "axios_response option"

text \<open>What a \<open>catch\<close> clause can receive.\<close>

datatype thrown =
    Thrown_VocaFuse vocafuse_error
  | Thrown_Axios axios_error
  | Thrown_Error string
  | Thrown_Other

section \<open>Error classification (errors/error-handler.ts)\<close>

text \<open>The greedy capture \<open>([^/]+)\<close>: the longest run of characters other than a slash.\<close>

definition segment :: "string \<Rightarrow> string" where
  "segment s = takeWhile (\<lambda>c. c \<noteq> CHR ''/'') s"

text \<open>
  A match of \<open>NAME\/([^/]+)(?:\/|$)\<close> that starts at the first character of \<open>s\<close>, giving
  the captured group. After the longest run of non-slash characters the input has a slash or
  ends, so the greedy capture is that run and the match exists exactly when the run is not
  empty.
\<close>

definition match_collection_at :: "string \<Rightarrow> string \<Rightarrow> string option" where
  "match_collection_at name s =
     (if prefix (name @ ''/'') s
      then (let g = segment (drop (length name + 1) s) in if g = [] then None else Some g)
      else None)"

text \<open>
  A match of \<open>voicenotes\/([^/]+)\/transcription\<close> that starts at the first character of
  \<open>s\<close>. A shorter capture would have to be followed by a slash, which the run does not
  contain, so only the longest run can match.
\<close>

definition match_transcription_at :: "string \<Rightarrow> string option" where
  "match_transcription_at s =
     (if prefix ''voicenotes/'' s
      then (let r = drop 11 s; g = segment r
            in if g \<noteq> [] \<and> prefix ''/transcription'' (drop (length g) r) then Some g else None)
      else None)"

text \<open>\<open>String.prototype.match\<close> without the global flag: the leftmost match.\<close>

fun regex_search :: "(string \<Rightarrow> 'a option) \<Rightarrow> string \<Rightarrow> 'a option" where
  "regex_search m [] = m []"
| "regex_search m (c # cs) = (case m (c # cs) of Some x \<Rightarrow> Some x | None \<Rightarrow> regex_search m cs)"

definition extractResourceId :: "string option \<Rightarrow> string \<Rightarrow> string option" where
  "extractResourceId u rt =
     (if \<not> truthy u then None
      else if rt = ''voicenote'' then regex_search (match_collection_at ''voicenotes'') (the u)
      else if rt = ''webhook'' then regex_search (match_collection_at ''webhooks'') (the u)
      else if rt = ''api_key'' then regex_search (match_collection_at ''api-keys'') (the u)
      else if rt = ''transcription'' then regex_search match_transcription_at (the u)
      else None)"

definition detectResourceType :: "string option \<Rightarrow> string option" where
  "detectResourceType u =
     (if \<not> truthy u then None
      else if str_includes (the u) ''/transcription''
              \<or> regex_search match_transcription_at (the u) \<noteq> None
           then Some ''transcription''
      else if str_includes (the u) ''voicenotes/'' \<or> str_includes (the u) ''/voicenotes''
           then Some ''voicenote''
      else if str_includes (the u) ''webhooks/'' \<or> str_includes (the u) ''/webhooks''
           then Some ''webhook''
      else if str_includes (the u) ''api-keys/'' \<or> str_includes (the u) ''/api-keys''
           then Some ''api_key''
      else None)"

text \<open>The context \<open>{ endpoint: requestUrl }\<close>.\<close>

definition endpoint_ctx :: "string option \<Rightarrow> ErrorContext option" where
  "endpoint_ctx u =
     Some \<lparr>resourceType = None, resourceId = None, endpoint = u, suggestion = None\<rparr>"

text \<open>
  \<open>handleApiError\<close>. The builtin \<open>parseInt(_, 10)\<close> is a parameter. A status code of
  \<open>0\<close> is falsy in the default branch.
\<close>

definition handleApiError :: "(string \<Rightarrow> js_number) \<Rightarrow> thrown \<Rightarrow> vocafuse_error" where
  "handleApiError parseInt10 err =
     (case err of
        Thrown_VocaFuse e \<Rightarrow> e
      | Thrown_Error m \<Rightarrow> new_VocaFuseError m None None None None
      | Thrown_Other \<Rightarrow> new_VocaFuseError ''Unknown error occurred'' None None None None
      | Thrown_Axios axiosError \<Rightarrow>
         (let statusCode = map_option status (ae_response axiosError);
              errorData = (case ae_response axiosError of None \<Rightarrow> None | Some r \<Rightarrow> data_error r);
              msg = or_str (case errorData of None \<Rightarrow> None | Some d \<Rightarrow> eb_message d)
                      (or_str (Some (ae_message axiosError)) ''An error occurred'');
              errorCode = (case errorData of None \<Rightarrow> None | Some d \<Rightarrow> eb_code d);
              dets = (case errorData of None \<Rightarrow> None | Some d \<Rightarrow> eb_details d);
              requestUrl = (case ae_config axiosError of None \<Rightarrow> None | Some c \<Rightarrow> url c);
              resourceType = detectResourceType requestUrl;
              resourceId = (if truthy resourceType
                            then extractResourceId requestUrl (the resourceType) else None)
          in if statusCode = Some 401
               then new_AuthenticationError msg errorCode dets (endpoint_ctx requestUrl)
             else if statusCode = Some 403
               then new_AuthorizationError msg errorCode dets (endpoint_ctx requestUrl)
             else if statusCode = Some 400
               then new_ValidationError msg errorCode dets (endpoint_ctx requestUrl)
             else if statusCode = Some 404
               then (if resourceType = Some ''transcription''
                       then new_TranscriptionNotFoundError msg errorCode dets resourceId
                     else if resourceType = Some ''voicenote''
                       then new_VoicenoteNotFoundError msg errorCode dets resourceId
                     else if resourceType = Some ''webhook''
                       then new_WebhookNotFoundError msg errorCode dets resourceId
                     else if resourceType = Some ''api_key''
                       then new_APIKeyNotFoundError msg errorCode dets resourceId
                     else new_NotFoundError msg errorCode dets (endpoint_ctx requestUrl))
             else if statusCode = Some 409
               then new_ConflictError msg errorCode dets (endpoint_ctx requestUrl)
             else if statusCode = Some 429
               then (let retryAfterHeader =
                           (case ae_response axiosError of None \<Rightarrow> None
                            | Some r \<Rightarrow> retry_after_header r);
                         retryAfterSeconds =
                           (if truthy retryAfterHeader
                            then Some (parseInt10 (the retryAfterHeader)) else None)
                     in new_RateLimitError msg errorCode dets (endpoint_ctx requestUrl)
                          retryAfterSeconds)
             else (case statusCode of
                     None \<Rightarrow> new_VocaFuseError msg statusCode errorCode dets (endpoint_ctx requestUrl)
                   | Some sc \<Rightarrow>
                       if sc \<noteq> 0 \<and> sc \<ge> 500
                       then new_ServerError msg sc errorCode dets (endpoint_ctx requestUrl)
                       else new_VocaFuseError msg statusCode errorCode dets
                              (endpoint_ctx requestUrl))))"

section \<open>The retry interceptor (client.ts)\<close>

record RetryConfig =
  maxRetries :: int
  retryDelay :: int
  retryableStatuses :: "nat list"

definition RETRYABLE_STATUS_CODES :: "nat list" where
  "RETRYABLE_STATUS_CODES = [408, 429, 500, 502, 503, 504]"

definition DEFAULT_RETRY_CONFIG :: RetryConfig where
  "DEFAULT_RETRY_CONFIG =
     \<lparr>maxRetries = 3, retryDelay = 1000, retryableStatuses = RETRYABLE_STATUS_CODES\<rparr>"

text \<open>
  What the rejection handler of the response interceptor does with a failure: it rejects
  with the error, or it hands a delay (milliseconds) to \<open>setTimeout\<close> and, when the timer
  fires, sends the configuration again.
\<close>

datatype retry_action = Reject axios_error | Retry int request_config

text \<open>\<open>config._retryCount || 0\<close>: the retries made so far for this request.\<close>

definition attemptsSoFar :: "request_config \<Rightarrow> nat" where
  "attemptsSoFar config = (case retryCount config of None \<Rightarrow> 0 | Some n \<Rightarrow> n)"

definition onRejected :: "RetryConfig \<Rightarrow> axios_error \<Rightarrow> retry_action" where
  "onRejected rc err =
     (case ae_config err of
        None \<Rightarrow> Reject err
      | Some config0 \<Rightarrow>
         (let cnt = attemptsSoFar config0;
              config = config0\<lparr>retryCount := Some cnt\<rparr>;
              shouldRetry =
                (int cnt < maxRetries rc
                 \<and> (case ae_response err of None \<Rightarrow> False
                     | Some r \<Rightarrow> status r \<in> set (retryableStatuses rc)))
          in if \<not> shouldRetry then Reject (err\<lparr>ae_config := Some config\<rparr>)
             else (let cnt' = cnt + 1;
                       delay = retryDelay rc * 2 ^ (cnt' - 1)
                   in Retry delay (config\<lparr>retryCount := Some cnt'\<rparr>))))"

text \<open>
  What the transport answers to one request: a response that resolves, or a failure
  (with or without a response; \<open>has_config\<close> tells whether the error object carries the
  request configuration).
\<close>

datatype reply = Resolved axios_response | Failed (has_config: bool) string "axios_response option"

datatype event = Sent request_config | Slept int

text \<open>
  The duration of the timer that \<open>setTimeout(resolve, delay)\<close> sets, in milliseconds: the
  platform replaces a delay below 1 or above \<open>2 ^ 31 - 1\<close> by 1. (The product
  \<open>retryDelay * Math.pow(2, n)\<close> of the code is a floating-point number; it is exact
  wherever it is at most \<open>2 ^ 31 - 1\<close>, and above that the timer is 1 millisecond
  whatever the rounding.)
\<close>

definition TIMEOUT_MAX :: int where
  "TIMEOUT_MAX = 2147483647"

definition setTimeout_ms :: "int \<Rightarrow> int" where
  "setTimeout_ms after = (if 1 \<le> after \<and> after \<le> TIMEOUT_MAX then after else 1)"

text \<open>
  \<open>httpClient.request(config)\<close> with the interceptor installed. The transport is a function
  of the number of requests sent before and of the configuration sent; the log records every
  request sent and the duration of every backoff timer, in order.
\<close>

function request ::
  "RetryConfig \<Rightarrow> (nat \<Rightarrow> request_config \<Rightarrow> reply) \<Rightarrow> nat \<Rightarrow> request_config \<Rightarrow> event list
     \<Rightarrow> (axios_error + axios_response) \<times> event list" where
  "request rc transport n config log =
     (case transport n config of
        Resolved r \<Rightarrow> (Inr r, log @ [Sent config])
      | Failed hc msg resp \<Rightarrow>
         (case onRejected rc \<lparr>ae_message = msg,
                              ae_config = (if hc then Some config else None),
                              ae_response = resp\<rparr> of
            Reject e \<Rightarrow> (Inl e, log @ [Sent config])
          | Retry delay config' \<Rightarrow>
              request rc transport (Suc n) config'
                (log @ [Sent config, Slept (setTimeout_ms delay)])))"
  by pat_completeness auto

termination request
  apply (relation "measure (\<lambda>(rc, t, n, c, l).
           nat (maxRetries rc - int (attemptsSoFar c)))")
   apply simp
  apply (auto simp: onRejected_def attemptsSoFar_def Let_def split: option.splits if_splits)
  done

text \<open>The number of requests that reached the transport.\<close>

definition attempts :: "event list \<Rightarrow> nat" where
  "attempts log = length (filter (\<lambda>ev. case ev of Sent _ \<Rightarrow> True | Slept _ \<Rightarrow> False) log)"

section \<open>SHA-256 and HMAC (the \<open>crypto\<close> module's \<open>createHmac('sha256', key)\<close>)\<close>

text \<open>
  The webhook validator calls the platform's HMAC-SHA256. It is modelled as the standards
  define it: SHA-256 after FIPS 180-4, HMAC after RFC 2104 with the 64-byte block of SHA-256.
  A string stands for its sequence of UTF-8 bytes.
\<close>

type_synonym byte = "8 word"
type_synonym u32 = "32 word"
type_synonym hstate = "u32 \<times> u32 \<times> u32 \<times> u32 \<times> u32 \<times> u32 \<times> u32 \<times> u32"

definition bytes_of :: "string \<Rightarrow> byte list" where
  "bytes_of s = map (\<lambda>c. of_char c) s"

text \<open>
  The constants of SHA-256 are the first 32 bits of the fractional parts of the cube roots
  (round constants) and of the square roots (initial hash value) of the first primes.
  \<open>iroot k n\<close> is the integer part of the \<open>k\<close>-th root of \<open>n\<close>, for \<open>n\<close> below
  \<open>2 ^ (40 * k)\<close>, found bit by bit from the top.
\<close>

definition iroot :: "nat \<Rightarrow> nat \<Rightarrow> nat" where
  "iroot k n = foldl (\<lambda>r b. if (r + 2 ^ b) ^ k \<le> n then r + 2 ^ b else r) 0 (rev [0..<40])"

definition frac_root_bits :: "nat \<Rightarrow> nat \<Rightarrow> u32" where
  "frac_root_bits k p = of_nat (iroot k (p * 2 ^ (32 * k)))"

definition first_primes :: "nat list" where
  "first_primes =
     [
      2, 3, 5, 7, 11, 13, 17, 19, 23, 29, 31, 37, 41, 43, 47, 53,
      59, 61, 67, 71, 73, 79, 83, 89, 97, 101, 103, 107, 109, 113, 127, 131,
      137, 139, 149, 151, 157, 163, 167, 173, 179, 181, 191, 193, 197, 199, 211, 223,
      227, 229, 233, 239, 241, 251, 257, 263, 269, 271, 277, 281, 283, 293, 307, 311]"

definition K256 :: "u32 list" where
  "K256 = map (frac_root_bits 3) first_primes"

definition H256_init :: hstate where
  "H256_init =
     (frac_root_bits 2 2, frac_root_bits 2 3, frac_root_bits 2 5, frac_root_bits 2 7,
      frac_root_bits 2 11, frac_root_bits 2 13, frac_root_bits 2 17, frac_root_bits 2 19)"

definition Ch :: "u32 \<Rightarrow> u32 \<Rightarrow> u32 \<Rightarrow> u32" where
  "Ch x y z = (x AND y) XOR (NOT x AND z)"

definition Maj :: "u32 \<Rightarrow> u32 \<Rightarrow> u32 \<Rightarrow> u32" where
  "Maj x y z = (x AND y) XOR (x AND z) XOR (y AND z)"

definition bsig0 :: "u32 \<Rightarrow> u32" where
  "bsig0 x = word_rotr 2 x XOR word_rotr 13 x XOR word_rotr 22 x"

definition bsig1 :: "u32 \<Rightarrow> u32" where
  "bsig1 x = word_rotr 6 x XOR word_rotr 11 x XOR word_rotr 25 x"

definition ssig0 :: "u32 \<Rightarrow> u32" where
  "ssig0 x = word_rotr 7 x XOR word_rotr 18 x XOR drop_bit 3 x"

definition ssig1 :: "u32 \<Rightarrow> u32" where
  "ssig1 x = word_rotr 17 x XOR word_rotr 19 x XOR drop_bit 10 x"

text \<open>Big-endian conversions.\<close>

definition be_word :: "byte list \<Rightarrow> u32" where
  "be_word bs = foldl (\<lambda>acc b. push_bit 8 acc OR ucast b) 0 bs"

definition be_bytes :: "u32 \<Rightarrow> byte list" where
  "be_bytes w = [ucast (drop_bit 24 w), ucast (drop_bit 16 w), ucast (drop_bit 8 w), ucast w]"

definition be64 :: "nat \<Rightarrow> byte list" where
  "be64 n = (let w = (of_nat n :: 64 word)
             in map (\<lambda>i. ucast (drop_bit (8 * i) w)) [7, 6, 5, 4, 3, 2, 1, 0])"

text \<open>Padding: a one bit, zeros up to 56 modulo 64 bytes, the bit length in 64 bits.\<close>

definition sha_pad :: "byte list \<Rightarrow> byte list" where
  "sha_pad m = m @ [0x80] @ replicate ((119 - length m mod 64) mod 64) 0 @ be64 (8 * length m)"

definition chunks :: "nat \<Rightarrow> 'a list \<Rightarrow> 'a list list" where
  "chunks n xs = map (\<lambda>i. take n (drop (i * n) xs)) [0..<length xs div n]"

text \<open>The message schedule: sixteen words of the block, then forty-eight derived ones.\<close>

definition next_w :: "u32 list \<Rightarrow> u32" where
  "next_w ws =
     (let t = length ws
      in ssig1 (ws ! (t - 2)) + ws ! (t - 7) + ssig0 (ws ! (t - 15)) + ws ! (t - 16))"

fun extend :: "nat \<Rightarrow> u32 list \<Rightarrow> u32 list" where
  "extend 0 ws = ws"
| "extend (Suc n) ws = extend n (ws @ [next_w ws])"

definition schedule :: "byte list \<Rightarrow> u32 list" where
  "schedule block = extend 48 (map be_word (chunks 4 block))"

fun sha_round :: "hstate \<Rightarrow> u32 \<times> u32 \<Rightarrow> hstate" where
  "sha_round (a, b, c, d, e, f, g, h) (k, w) =
     (let T1 = h + bsig1 e + Ch e f g + k + w;
          T2 = bsig0 a + Maj a b c
      in (T1 + T2, a, b, c, d + T1, e, f, g))"

fun add_state :: "hstate \<Rightarrow> hstate \<Rightarrow> hstate" where
  "add_state (a, b, c, d, e, f, g, h) (a', b', c', d', e', f', g', h') =
     (a + a', b + b', c + c', d + d', e + e', f + f', g + g', h + h')"

definition compress :: "hstate \<Rightarrow> byte list \<Rightarrow> hstate" where
  "compress H block = add_state H (foldl sha_round H (zip K256 (schedule block)))"

fun state_bytes :: "hstate \<Rightarrow> byte list" where
  "state_bytes (a, b, c, d, e, f, g, h) =
     be_bytes a @ be_bytes b @ be_bytes c @ be_bytes d
     @ be_bytes e @ be_bytes f @ be_bytes g @ be_bytes h"

definition sha256 :: "byte list \<Rightarrow> byte list" where
  "sha256 m = state_bytes (foldl compress H256_init (chunks 64 (sha_pad m)))"

text \<open>
  HMAC: a key longer than a block is hashed first; the key is then filled with zero bytes
  to the block length.
\<close>

definition hmac_key :: "byte list \<Rightarrow> byte list" where
  "hmac_key k =
     (let k' = (if length k > 64 then sha256 k else k) in k' @ replicate (64 - length k') 0)"



definition hmac_sha256 :: "byte list \<Rightarrow> byte list \<Rightarrow> byte list" where
  "hmac_sha256 k m =
     (let k0 = hmac_key k
      in sha256 (map (\<lambda>b. b XOR 0x5c) k0 @ sha256 (map (\<lambda>b. b XOR 0x36) k0 @ m)))"

section \<open>Hexadecimal strings and buffers\<close>

definition hex_digit :: "nat \<Rightarrow> char" where
  "hex_digit n = char_of (if n < 10 then 48 + n else 87 + n)"

text \<open>\<open>digest('hex')\<close>: two lowercase digits for every byte.\<close>

definition hex_encode :: "byte list \<Rightarrow> string" where
  "hex_encode bs = concat (map (\<lambda>b. [hex_digit (unat b div 16), hex_digit (unat b mod 16)]) bs)"

definition unhex :: "char \<Rightarrow> nat option" where
  "unhex c =
     (let n = (of_char c :: nat)
      in if 48 \<le> n \<and> n \<le> 57 then Some (n - 48)
         else if 97 \<le> n \<and> n \<le> 102 then Some (n - 87)
         else if 65 \<le> n \<and> n \<le> 70 then Some (n - 55)
         else None)"

text \<open>
  \<open>Buffer.from(s, 'hex')\<close>: pairs of hexadecimal digits are decoded from the left; decoding
  stops at the first pair that is not two hexadecimal digits, and a trailing single
  character is dropped. It does not raise. This is the decoder on strings of ASCII
  characters. On a character outside ASCII the platform looks at the low byte of its UTF-16
  code unit, which can be a hexadecimal digit, where this function sees the bytes of its
  UTF-8 encoding, which are none; the decoded buffers can then differ.
\<close>

fun Buffer_from_hex :: "string \<Rightarrow> byte list" where
  "Buffer_from_hex (a # b # rest) =
     (case (unhex a, unhex b) of
        (Some x, Some y) \<Rightarrow> of_nat (16 * x + y) # Buffer_from_hex rest
      | _ \<Rightarrow> [])"
| "Buffer_from_hex _ = []"

datatype js_exception = RangeError

text \<open>\<open>crypto.timingSafeEqual\<close> raises a \<open>RangeError\<close> on buffers of different lengths.\<close>

definition timingSafeEqual :: "byte list \<Rightarrow> byte list \<Rightarrow> js_exception + bool" where
  "timingSafeEqual a b = (if length a \<noteq> length b then Inl RangeError else Inr (a = b))"

section \<open>The webhook request validator (class RequestValidator)\<close>

record ValidateOptions =
  opt_url :: "string option"
  timestamp :: "string option"
  deliveryId :: "string option"

definition buildStringToSign :: "string \<Rightarrow> string option \<Rightarrow> string option \<Rightarrow> string" where
  "buildStringToSign pl ts did =
     (if truthy ts \<and> truthy did then the ts @ ''.'' @ the did @ ''.'' @ pl
      else if truthy ts then the ts @ ''.'' @ pl
      else pl)"

text \<open>The first argument is the validator's \<open>authToken\<close>.\<close>

definition computeSignature ::
  "string \<Rightarrow> string \<Rightarrow> string option \<Rightarrow> string option \<Rightarrow> string" where
  "computeSignature authToken pl ts did =
     (let stringToSign = buildStringToSign pl ts did
      in hex_encode (hmac_sha256 (bytes_of authToken) (bytes_of stringToSign)))"

text \<open>
  \<open>validate\<close>. The result is \<open>Inl\<close> of an exception if one escapes the method, \<open>Inr\<close> of
  the returned boolean otherwise; the \<open>catch\<close> clause turns every exception of the
  comparison into \<open>false\<close>.
\<close>

definition validate ::
  "string \<Rightarrow> string \<Rightarrow> string \<Rightarrow> ValidateOptions option \<Rightarrow> js_exception + bool" where
  "validate authToken pl signature options =
     (let stringToSign =
            buildStringToSign pl
              (case options of None \<Rightarrow> None | Some opts \<Rightarrow> timestamp opts)
              (case options of None \<Rightarrow> None | Some opts \<Rightarrow> deliveryId opts);
          expectedSignature = computeSignature authToken stringToSign None None;
          providedSignature =
            (if prefix ''sha256='' signature then drop 7 signature else signature)
      in case timingSafeEqual (Buffer_from_hex providedSignature)
                (Buffer_from_hex expectedSignature) of
           Inr b \<Rightarrow> Inr b
         | Inl _ \<Rightarrow> Inr False)"

section \<open>Voicenotes: list and iterate (resources/voicenotes.ts)\<close>

definition PAGE_LIMIT :: int where
  "PAGE_LIMIT = 50"

definition MAX_PAGE_LIMIT :: int where
  "MAX_PAGE_LIMIT = 100"

record ListVoicenotesOptions =
  page :: "int option"
  limit :: "int option"
  status_filter :: "string option"
  dateFrom :: "string option"
  dateTo :: "string option"

text \<open>The query parameters that \<open>list\<close> sends.\<close>

record list_params =
  p_page :: int
  p_limit :: int
  p_status :: "string option"
  p_date_from :: "string option"
  p_date_to :: "string option"

record pagination =
  pg_page :: int
  pg_limit :: int
  pg_total :: int
  has_more :: bool

record 'v PaginatedResponse =
  data :: "'v list"
  pagination :: "pagination option"

text \<open>\<open>v || d\<close> for an optional number: \<open>undefined\<close> and \<open>0\<close> are falsy.\<close>

definition or_number :: "int option \<Rightarrow> int \<Rightarrow> int" where
  "or_number v d = (case v of None \<Rightarrow> d | Some i \<Rightarrow> if i = 0 then d else i)"

text \<open>\<open>options?.f\<close>\<close>

definition opt_field :: "('o \<Rightarrow> 'a option) \<Rightarrow> 'o option \<Rightarrow> 'a option" where
  "opt_field f options = (case options of None \<Rightarrow> None | Some opts \<Rightarrow> f opts)"

text \<open>\<open>...(v && { key: v })\<close>: the key is sent only for a truthy value.\<close>

definition if_truthy :: "string option \<Rightarrow> string option" where
  "if_truthy v = (if truthy v then v else None)"

definition list_query :: "ListVoicenotesOptions option \<Rightarrow> list_params" where
  "list_query options =
     \<lparr>p_page = or_number (opt_field page options) 0,
      p_limit = min (or_number (opt_field limit options) PAGE_LIMIT) MAX_PAGE_LIMIT,
      p_status = if_truthy (opt_field status_filter options),
      p_date_from = if_truthy (opt_field dateFrom options),
      p_date_to = if_truthy (opt_field dateTo options)\<rparr>"

text \<open>
  The HTTP client behind the resource: the number of list requests made before, the endpoint
  and the query parameters give a response body or a thrown value.
\<close>

type_synonym 'v http_get = "nat \<Rightarrow> string \<Rightarrow> list_params \<Rightarrow> thrown + 'v PaginatedResponse"

text \<open>\<open>BaseResource._get\<close>: a thrown value is converted by \<open>handleApiError\<close>.\<close>

definition get_request ::
  "(string \<Rightarrow> js_number) \<Rightarrow> 'v http_get \<Rightarrow> nat \<Rightarrow> string \<Rightarrow> list_params
     \<Rightarrow> vocafuse_error + 'v PaginatedResponse" where
  "get_request parseInt10 http n ep params =
     (case http n ep params of
        Inr r \<Rightarrow> Inr r
      | Inl err \<Rightarrow> Inl (handleApiError parseInt10 err))"

definition list_voicenotes ::
  "(string \<Rightarrow> js_number) \<Rightarrow> 'v http_get \<Rightarrow> nat \<Rightarrow> ListVoicenotesOptions option
     \<Rightarrow> vocafuse_error + 'v PaginatedResponse" where
  "list_voicenotes parseInt10 http n options =
     get_request parseInt10 http n ''voicenotes'' (list_query options)"

text \<open>\<open>{ ...options, page }\<close>\<close>

definition with_page :: "ListVoicenotesOptions option \<Rightarrow> int \<Rightarrow> ListVoicenotesOptions option" where
  "with_page options p =
     (case options of
        None \<Rightarrow> Some \<lparr>page = Some p, limit = None, status_filter = None,
                      dateFrom = None, dateTo = None\<rparr>
      | Some opts \<Rightarrow> Some (opts\<lparr>page := Some p\<rparr>))"

text \<open>
  The async generator \<open>iterate\<close> as a state machine. \<open>LoopHead p hasMore\<close> is the test of
  \<open>while (hasMore)\<close> with the page \<open>p\<close>; \<open>InPage xs hm p\<close> is the \<open>for\<close> loop over a
  fetched page with the items \<open>xs\<close> still to yield, where \<open>hm\<close> is
  \<open>response.pagination?.has_more ?? false\<close>; \<open>Completed\<close> is the finished generator.
  \<open>sent\<close> lists the query parameters of the list requests made so far.
\<close>

datatype 'v gen_state = LoopHead int bool | InPage "'v list" bool int | Completed

record 'v generator =
  gen :: "'v gen_state"
  sent :: "list_params list"

datatype 'v step = Yield 'v | Done | Throw vocafuse_error

definition iterate :: "ListVoicenotesOptions option \<Rightarrow> 'v generator" where
  "iterate options = \<lparr>gen = LoopHead (or_number (opt_field page options) 0) True, sent = []\<rparr>"

text \<open>
  One call of the generator's \<open>next()\<close>: it runs to the next \<open>yield\<close>, to the end of the
  loop or to an exception. A server that keeps answering with empty pages and
  \<open>has_more = true\<close> keeps it running forever; not returning is the value \<open>None\<close>.
\<close>

partial_function (option) gen_next ::
  "(string \<Rightarrow> js_number) \<Rightarrow> 'v http_get \<Rightarrow> ListVoicenotesOptions option \<Rightarrow> 'v generator
     \<Rightarrow> ('v step \<times> 'v generator) option" where
  "gen_next parseInt10 http options g =
     (case gen g of
        Completed \<Rightarrow> Some (Done, g)
      | InPage xs hm p \<Rightarrow>
          (case xs of
             x # rest \<Rightarrow> Some (Yield x, g\<lparr>gen := InPage rest hm p\<rparr>)
           | [] \<Rightarrow> gen_next parseInt10 http options (g\<lparr>gen := LoopHead (p + 1) hm\<rparr>))
      | LoopHead p hasMore \<Rightarrow>
          (if hasMore
           then (case list_voicenotes parseInt10 http (length (sent g)) (with_page options p) of
                   Inl e \<Rightarrow>
                     Some (Throw e,
                           \<lparr>gen = Completed, sent = sent g @ [list_query (with_page options p)]\<rparr>)
                 | Inr response \<Rightarrow>
                     gen_next parseInt10 http options
                       \<lparr>gen = InPage (data response)
                                (case pagination response of None \<Rightarrow> False
                                 | Some pg \<Rightarrow> has_more pg) p,
                        sent = sent g @ [list_query (with_page options p)]\<rparr>)
           else Some (Done, g\<lparr>gen := Completed\<rparr>)))"

text \<open>
  \<open>for await (const v of iterate(options)) { ... }\<close> with a body that collects the item
  and then leaves the loop with \<open>break\<close> when \<open>brk\<close> holds of the items collected so far.
  Leaving the loop calls the generator's \<open>return()\<close>, which finishes it at the pending
  \<open>yield\<close>. The result is the items in the order yielded, or the error thrown, and the
  final generator.
\<close>

partial_function (option) for_await ::
  "(string \<Rightarrow> js_number) \<Rightarrow> 'v http_get \<Rightarrow> ListVoicenotesOptions option \<Rightarrow> ('v list \<Rightarrow> bool)
     \<Rightarrow> 'v generator \<Rightarrow> 'v list \<Rightarrow> ((vocafuse_error + 'v list) \<times> 'v generator) option" where
  "for_await parseInt10 http options brk g acc =
     (case gen_next parseInt10 http options g of
        None \<Rightarrow> None
      | Some (r, g') \<Rightarrow>
          (case r of
             Yield x \<Rightarrow>
               if brk (acc @ [x]) then Some (Inr (acc @ [x]), g'\<lparr>gen := Completed\<rparr>)
               else for_await parseInt10 http options brk g' (acc @ [x])
           | Done \<Rightarrow> Some (Inr acc, g')
           | Throw e \<Rightarrow> Some (Inl e, g')))"

definition never :: "'a \<Rightarrow> bool" where
  "never x = False"

definition at_least :: "nat \<Rightarrow> 'a list \<Rightarrow> bool" where
  "at_least n xs = (n \<le> length xs)"

section \<open>Sample requests and transports\<close>

text \<open>
  A transport that answers the \<open>n\<close>-th request with the \<open>n\<close>-th reply of a script and
  fails without a response once the script is used up.
\<close>

definition scripted :: "reply list \<Rightarrow> nat \<Rightarrow> request_config \<Rightarrow> reply" where
  "scripted rs n c = (if n < length rs then rs ! n else Failed True ''Network Error'' None)"

definition response_of :: "nat \<Rightarrow> axios_response" where
  "response_of s = \<lparr>status = s, data_error = None, retry_after_header = None, payload = []\<rparr>"

definition failure_of :: "nat \<Rightarrow> reply" where
  "failure_of s = Failed True ''Request failed'' (Some (response_of s))"

definition get_voicenotes :: request_config where
  "get_voicenotes = \<lparr>http_method = ''get'', url = Some ''voicenotes'', query = [], headers = [],
                      body = None, retryCount = None\<rparr>"


text \<open>A server with four voicenotes on two pages of two.\<close>

definition two_pages :: "string http_get" where
  "two_pages n ep params =
     (if ep = ''voicenotes'' \<and> p_page params = 0 \<and> p_limit params = 50
      then Inr \<lparr>data = [''vn_1'', ''vn_2''],
                pagination = Some \<lparr>pg_page = 0, pg_limit = 50, pg_total = 4, has_more = True\<rparr>\<rparr>
      else if ep = ''voicenotes'' \<and> p_page params = 1 \<and> p_limit params = 50
      then Inr \<lparr>data = [''vn_3'', ''vn_4''],
                pagination = Some \<lparr>pg_page = 1, pg_limit = 50, pg_total = 4, has_more = False\<rparr>\<rparr>
      else Inl (Thrown_Error ''No match for request''))"


declare request.simps [simp del]

section \<open>The limit sent by the list operation\<close>

text \<open>
  C7, as stated, fails: the limit sent is bounded above only. A caller-supplied limit of
  \<open>-5\<close> is sent as \<open>-5\<close>, which is outside the interval from 1 to 100.
\<close>

theorem limit_negative_counterexample:
  "p_limit (list_query (Some \<lparr>page = None, limit = Some (- 5), status_filter = None,
                               dateFrom = None, dateTo = None\<rparr>)) = - 5
   \<and> \<not> (1 \<le> p_limit (list_query (Some \<lparr>page = None, limit = Some (- 5), status_filter = None,
                                      dateFrom = None, dateTo = None\<rparr>)))"
  by (simp add: list_query_def opt_field_def or_number_def PAGE_LIMIT_def MAX_PAGE_LIMIT_def)

text \<open>
  C7, amended: the limit sent never exceeds 100; an omitted limit, and a limit of 0, are sent
  as the default 50; a caller-supplied limit of at least 1 is sent as the smaller of itself
  and 100, which lies between 1 and 100; a negative limit is sent unchanged.
\<close>

theorem limit_sent:
  "p_limit (list_query options) \<le> 100
   \<and> (opt_field limit options = None \<or> opt_field limit options = Some 0
        \<longrightarrow> p_limit (list_query options) = 50)
   \<and> (opt_field limit options = Some n \<and> 1 \<le> n
        \<longrightarrow> p_limit (list_query options) = min n 100
            \<and> 1 \<le> p_limit (list_query options) \<and> p_limit (list_query options) \<le> 100)
   \<and> (opt_field limit options = Some n \<and> n < 0 \<longrightarrow> p_limit (list_query options) = n)"
  by (auto simp: list_query_def or_number_def PAGE_LIMIT_def MAX_PAGE_LIMIT_def)

theorem limit_sent_witness:
  "p_limit (list_query None) = 50
   \<and> p_limit (list_query (Some \<lparr>page = None, limit = Some 200, status_filter = None,
                               dateFrom = None, dateTo = None\<rparr>)) = 100
   \<and> p_limit (list_query (Some \<lparr>page = None, limit = Some 0, status_filter = None,
                               dateFrom = None, dateTo = None\<rparr>)) = 50"
  using limit_sent [of None 200]
    limit_sent [of "Some \<lparr>page = None, limit = Some 200, status_filter = None,
                          dateFrom = None, dateTo = None\<rparr>" 200]
    limit_sent [of "Some \<lparr>page = None, limit = Some 0, status_filter = None,
                          dateFrom = None, dateTo = None\<rparr>" 200]
  by (simp add: opt_field_def)

section \<open>The composite message of a typed error\<close>

text \<open>
  C9, as stated, fails: a resource id that is set to the empty string gets no resource
  annotation, although it is set.
\<close>

theorem friendlyMessage_empty_id_counterexample:
  "friendlyMessage \<lparr>error_class = NotFoundError, message = ''Not found'', statusCode = Some 404,
      errorCode = None, details = None,
      err_context = Some \<lparr>resourceType = Some ''voicenote'', resourceId = Some [],
                           endpoint = None, suggestion = None\<rparr>,
      retryAfter = None\<rparr> = ''Not found''
   \<and> friendlyMessage \<lparr>error_class = NotFoundError, message = ''Not found'', statusCode = Some 404,
      errorCode = None, details = None,
      err_context = Some \<lparr>resourceType = Some ''voicenote'', resourceId = Some [],
                           endpoint = None, suggestion = None\<rparr>,
      retryAfter = None\<rparr> \<noteq> ''Not found (voicenote: )''"
  by (simp add: friendlyMessage_def ctx_field_def truthy_def)

text \<open>
  C9, amended: the composite message is the base message, followed by the annotation
  \<open>" (type: id)"\<close> exactly when the resource id is set and not empty (with the word
  \<open>resource\<close> for a resource type that is unset or empty), followed by \<open>". suggestion"\<close>
  exactly when the suggestion is set and not empty. An error without a resource id gets
  no annotation, whatever its resource type.
\<close>

theorem friendlyMessage_parts:
  "friendlyMessage e =
     message e
     @ (case ctx_field resourceId e of
          None \<Rightarrow> []
        | Some rid \<Rightarrow>
            if rid = [] then []
            else '' ('' @ (case ctx_field resourceType e of
                            None \<Rightarrow> ''resource''
                          | Some rt \<Rightarrow> if rt = [] then ''resource'' else rt)
                 @ '': '' @ rid @ '')'')
     @ (case ctx_field suggestion e of
          None \<Rightarrow> []
        | Some sg \<Rightarrow> if sg = [] then [] else ''. '' @ sg)"
  by (simp add: friendlyMessage_def truthy_def or_str_def Let_def split: option.splits)

theorem friendlyMessage_parts_witness:
  "friendlyMessage (new_VoicenoteNotFoundError ''Not found'' None None (Some ''vn_1''))
     = ''Not found (voicenote: vn_1). Verify the voicenote ID exists and belongs to your account.''
   \<and> friendlyMessage (new_NotFoundError ''Not found'' None None
        (Some \<lparr>resourceType = Some ''voicenote'', resourceId = None, endpoint = None,
               suggestion = None\<rparr>)) = ''Not found''
   \<and> friendlyMessage (new_NotFoundError ''Not found'' None None
        (Some \<lparr>resourceType = None, resourceId = Some ''x1'', endpoint = None,
               suggestion = None\<rparr>)) = ''Not found (resource: x1)''"
  using friendlyMessage_parts [of "new_VoicenoteNotFoundError ''Not found'' None None (Some ''vn_1'')"]
    friendlyMessage_parts [of "new_NotFoundError ''Not found'' None None
        (Some \<lparr>resourceType = Some ''voicenote'', resourceId = None, endpoint = None,
               suggestion = None\<rparr>)"]
    friendlyMessage_parts [of "new_NotFoundError ''Not found'' None None
        (Some \<lparr>resourceType = None, resourceId = Some ''x1'', endpoint = None,
               suggestion = None\<rparr>)"]
  by (simp add: new_VoicenoteNotFoundError_def new_NotFoundError_def new_VocaFuseError_def
        ctx_field_def)

section \<open>Empty options of the webhook validator\<close>

text \<open>
  C10: an empty timestamp or delivery id is treated as an absent one. The signature computed
  with an empty timestamp is the signature computed without options, whatever the delivery
  id; the signature computed with an empty delivery id is the one computed with the
  timestamp alone; \<open>validate\<close> returns the same for the same option values.
\<close>

theorem empty_option_is_absent:
  "computeSignature authToken pl (Some []) did = computeSignature authToken pl None None
   \<and> computeSignature authToken pl ts (Some []) = computeSignature authToken pl ts None
   \<and> validate authToken pl sg (Some \<lparr>opt_url = u, timestamp = Some [], deliveryId = did\<rparr>)
       = validate authToken pl sg None
   \<and> validate authToken pl sg (Some \<lparr>opt_url = u, timestamp = ts, deliveryId = Some []\<rparr>)
       = validate authToken pl sg (Some \<lparr>opt_url = u, timestamp = ts, deliveryId = None\<rparr>)"
  by (simp add: computeSignature_def validate_def buildStringToSign_def truthy_def)

theorem empty_option_is_absent_witness:
  "computeSignature ''whsec'' ''{}'' (Some []) (Some ''d1'')
     = computeSignature ''whsec'' ''{}'' None None
   \<and> computeSignature ''whsec'' ''{}'' (Some ''1700000000'') (Some [])
       = computeSignature ''whsec'' ''{}'' (Some ''1700000000'') None"
  using empty_option_is_absent [of "''whsec''" "''{}''" "Some ''d1''" "Some ''1700000000''"]
  by simp

section \<open>The retry engine\<close>

lemma onRejected_retry:
  "ae_config err = Some cfg \<Longrightarrow> ae_response err = Some r \<Longrightarrow>
   status r \<in> set (retryableStatuses rc) \<Longrightarrow> int (attemptsSoFar cfg) < maxRetries rc \<Longrightarrow>
   onRejected rc err
     = Retry (retryDelay rc * 2 ^ attemptsSoFar cfg) (cfg\<lparr>retryCount := Some (attemptsSoFar cfg + 1)\<rparr>)"
  by (simp add: onRejected_def Let_def)

lemma onRejected_reject:
  "ae_config err = Some cfg \<Longrightarrow>
   \<not> (int (attemptsSoFar cfg) < maxRetries rc
      \<and> (case ae_response err of None \<Rightarrow> False | Some r \<Rightarrow> status r \<in> set (retryableStatuses rc))) \<Longrightarrow>
   onRejected rc err = Reject (err\<lparr>ae_config := Some (cfg\<lparr>retryCount := Some (attemptsSoFar cfg)\<rparr>)\<rparr>)"
  by (simp add: onRejected_def Let_def)

lemma request_Resolved:
  "transport n cfg = Resolved r \<Longrightarrow> request rc transport n cfg log = (Inr r, log @ [Sent cfg])"
  by (subst request.simps) simp

lemma request_retry:
  assumes "transport n cfg = Failed True msg (Some r)"
    and "status r \<in> set (retryableStatuses rc)" and "int (attemptsSoFar cfg) < maxRetries rc"
  shows "request rc transport n cfg log
     = request rc transport (Suc n) (cfg\<lparr>retryCount := Some (attemptsSoFar cfg + 1)\<rparr>)
         (log @ [Sent cfg, Slept (setTimeout_ms (retryDelay rc * 2 ^ attemptsSoFar cfg))])"
  apply (subst request.simps)
  using assms by (simp add: onRejected_retry)

lemma request_reject:
  assumes "transport n cfg = Failed True msg resp"
    and "\<not> (int (attemptsSoFar cfg) < maxRetries rc
      \<and> (case resp of None \<Rightarrow> False | Some r \<Rightarrow> status r \<in> set (retryableStatuses rc)))"
  shows "request rc transport n cfg log
     = (Inl \<lparr>ae_message = msg, ae_config = Some (cfg\<lparr>retryCount := Some (attemptsSoFar cfg)\<rparr>),
              ae_response = resp\<rparr>, log @ [Sent cfg])"
  apply (subst request.simps)
  using assms by (simp add: onRejected_reject)

lemma handleApiError_server:
  "ae_response e = Some r \<Longrightarrow> status r = 500 \<Longrightarrow>
   error_class (handleApiError pI (Thrown_Axios e)) = ServerError
   \<and> statusCode (handleApiError pI (Thrown_Axios e)) = Some 500"
  by (simp add: handleApiError_def Let_def new_ServerError_def new_VocaFuseError_def)


lemma setTimeout_ms_cases:
  "(1 \<le> d \<and> d \<le> 2147483647 \<longrightarrow> setTimeout_ms d = d)
   \<and> (d < 1 \<or> 2147483647 < d \<longrightarrow> setTimeout_ms d = 1)"
  by (auto simp: setTimeout_ms_def TIMEOUT_MAX_def)

text \<open>
  C1, as stated, fails: the delay is handed to \<open>setTimeout\<close>, which replaces a delay above
  \<open>2 ^ 31 - 1\<close> by 1. With \<open>retryDelay = 3000000000\<close> the engine waits 1 millisecond before
  the first retry, not \<open>retryDelay * 2 ^ 0\<close> milliseconds.
\<close>

theorem retry_delay_counterexample:
  "request \<lparr>maxRetries = 3, retryDelay = 3000000000, retryableStatuses = RETRYABLE_STATUS_CODES\<rparr>
     (scripted [failure_of 500, Resolved (response_of 200)]) 0 get_voicenotes []
     = (Inr (response_of 200),
        [Sent get_voicenotes, Slept 1, Sent (get_voicenotes\<lparr>retryCount := Some 1\<rparr>)])
   \<and> (1 :: int) \<noteq> 3000000000 * 2 ^ 0"
proof -
  let ?rc = "\<lparr>maxRetries = 3, retryDelay = 3000000000,
              retryableStatuses = RETRYABLE_STATUS_CODES\<rparr>"
  let ?t = "scripted [failure_of 500, Resolved (response_of 200)]"
  let ?c1 = "get_voicenotes\<lparr>retryCount := Some 1\<rparr>"
  have 0: "attemptsSoFar get_voicenotes = 0"
    by (simp add: attemptsSoFar_def get_voicenotes_def)
  have "request ?rc ?t 0 get_voicenotes []
      = request ?rc ?t (Suc 0) ?c1 [Sent get_voicenotes, Slept 1]"
    using request_retry [of ?t 0 get_voicenotes "''Request failed''" "response_of 500" ?rc "[]"]
    by (simp add: 0 scripted_def failure_of_def response_of_def RETRYABLE_STATUS_CODES_def
          setTimeout_ms_def TIMEOUT_MAX_def)
  also have "\<dots> = (Inr (response_of 200), [Sent get_voicenotes, Slept 1, Sent ?c1])"
    using request_Resolved [of ?t "Suc 0" ?c1 "response_of 200" ?rc "[Sent get_voicenotes, Slept 1]"]
    by (simp add: scripted_def)
  finally show ?thesis by simp
qed

text \<open>
  C1, amended: when a failure has a response whose status is in the configured retryable
  set and the attempt counter of the request is below \<open>maxRetries\<close>, the interceptor hands
  the delay \<open>retryDelay * 2 ^ attemptsSoFar\<close> to \<open>setTimeout\<close>, increments the counter and
  sends the same configuration again. The timer runs for that delay when the delay lies
  between 1 and \<open>2 ^ 31 - 1\<close> milliseconds, and for 1 millisecond otherwise. So for the
  answers 500, 500, 200 with \<open>maxRetries = 3\<close> (and 500 retryable) the result is the 200
  response after exactly three requests, with timers for \<open>retryDelay\<close> and
  \<open>2 * retryDelay\<close>; and with \<open>maxRetries = 0\<close> a single 500 is rejected after one
  request and no timer, and is classified as a \<open>ServerError\<close>.
\<close>

theorem retry_engine:
  "(ae_config err = Some cfg \<and> ae_response err = Some r
      \<and> status r \<in> set (retryableStatuses rc) \<and> int (attemptsSoFar cfg) < maxRetries rc
    \<longrightarrow> onRejected rc err
          = Retry (retryDelay rc * 2 ^ attemptsSoFar cfg)
              (cfg\<lparr>retryCount := Some (attemptsSoFar cfg + 1)\<rparr>))
   \<and> (transport n cfg = Failed True msg (Some r)
      \<and> status r \<in> set (retryableStatuses rc) \<and> int (attemptsSoFar cfg) < maxRetries rc
    \<longrightarrow> request rc transport n cfg log
          = request rc transport (Suc n) (cfg\<lparr>retryCount := Some (attemptsSoFar cfg + 1)\<rparr>)
              (log @ [Sent cfg, Slept (setTimeout_ms (retryDelay rc * 2 ^ attemptsSoFar cfg))]))
   \<and> (1 \<le> d \<and> d \<le> 2147483647 \<longrightarrow> setTimeout_ms d = d)
   \<and> (d < 1 \<or> 2147483647 < d \<longrightarrow> setTimeout_ms d = 1)
   \<and> (maxRetries rc = 3 \<and> 500 \<in> set (retryableStatuses rc) \<and> retryCount cfg = None
      \<and> status r1 = 500 \<and> status r2 = 500 \<and> status r3 = 200
      \<and> (\<forall>c. transport 0 c = Failed True m1 (Some r1))
      \<and> (\<forall>c. transport 1 c = Failed True m2 (Some r2))
      \<and> (\<forall>c. transport 2 c = Resolved r3)
    \<longrightarrow> request rc transport 0 cfg []
          = (Inr r3, [Sent cfg, Slept (setTimeout_ms (retryDelay rc)),
                      Sent (cfg\<lparr>retryCount := Some 1\<rparr>),
                      Slept (setTimeout_ms (retryDelay rc * 2)),
                      Sent (cfg\<lparr>retryCount := Some 2\<rparr>)])
        \<and> attempts (snd (request rc transport 0 cfg [])) = 3)
   \<and> (maxRetries rc = 0 \<and> status r1 = 500 \<and> transport 0 cfg = Failed True m1 (Some r1)
    \<longrightarrow> (\<exists>e. request rc transport 0 cfg [] = (Inl e, [Sent cfg])
             \<and> ae_response e = Some r1
             \<and> error_class (handleApiError parseInt10 (Thrown_Axios e)) = ServerError
             \<and> statusCode (handleApiError parseInt10 (Thrown_Axios e)) = Some 500))"
proof (intro conjI impI)
  assume "ae_config err = Some cfg \<and> ae_response err = Some r
      \<and> status r \<in> set (retryableStatuses rc) \<and> int (attemptsSoFar cfg) < maxRetries rc"
  then show "onRejected rc err
          = Retry (retryDelay rc * 2 ^ attemptsSoFar cfg)
              (cfg\<lparr>retryCount := Some (attemptsSoFar cfg + 1)\<rparr>)"
    by (simp add: onRejected_retry)
next
  assume "transport n cfg = Failed True msg (Some r)
      \<and> status r \<in> set (retryableStatuses rc) \<and> int (attemptsSoFar cfg) < maxRetries rc"
  then show "request rc transport n cfg log
          = request rc transport (Suc n) (cfg\<lparr>retryCount := Some (attemptsSoFar cfg + 1)\<rparr>)
              (log @ [Sent cfg, Slept (setTimeout_ms (retryDelay rc * 2 ^ attemptsSoFar cfg))])"
    using request_retry [of transport n cfg msg r rc log] by simp
next
  assume "1 \<le> d \<and> d \<le> 2147483647"
  then show "setTimeout_ms d = d" using setTimeout_ms_cases [of d] by simp
next
  assume "d < 1 \<or> 2147483647 < d"
  then show "setTimeout_ms d = 1" using setTimeout_ms_cases [of d] by simp
next
  assume a: "maxRetries rc = 3 \<and> 500 \<in> set (retryableStatuses rc) \<and> retryCount cfg = None
      \<and> status r1 = 500 \<and> status r2 = 500 \<and> status r3 = 200
      \<and> (\<forall>c. transport 0 c = Failed True m1 (Some r1))
      \<and> (\<forall>c. transport 1 c = Failed True m2 (Some r2))
      \<and> (\<forall>c. transport 2 c = Resolved r3)"
  let ?c1 = "cfg\<lparr>retryCount := Some 1\<rparr>" and ?c2 = "cfg\<lparr>retryCount := Some 2\<rparr>"
  let ?s1 = "Slept (setTimeout_ms (retryDelay rc))"
  let ?s2 = "Slept (setTimeout_ms (retryDelay rc * 2))"
  have s0: "attemptsSoFar cfg = 0" and s1: "attemptsSoFar ?c1 = 1"
    using a by (simp_all add: attemptsSoFar_def)
  have "request rc transport 0 cfg [] = request rc transport (Suc 0) ?c1 [Sent cfg, ?s1]"
    using a s0 request_retry [of transport 0 cfg m1 r1 rc "[]"] by simp
  also have "\<dots> = request rc transport (Suc (Suc 0)) ?c2 [Sent cfg, ?s1, Sent ?c1, ?s2]"
    using a s1 request_retry [of transport "Suc 0" ?c1 m2 r2 rc "[Sent cfg, ?s1]"]
    by (simp add: numeral_2_eq_2)
  also have "\<dots> = (Inr r3, [Sent cfg, ?s1, Sent ?c1, ?s2, Sent ?c2])"
    using a request_Resolved [of transport "Suc (Suc 0)" ?c2 r3 rc] by (simp add: numeral_2_eq_2)
  finally show res: "request rc transport 0 cfg []
          = (Inr r3, [Sent cfg, Slept (setTimeout_ms (retryDelay rc)),
                      Sent (cfg\<lparr>retryCount := Some 1\<rparr>),
                      Slept (setTimeout_ms (retryDelay rc * 2)),
                      Sent (cfg\<lparr>retryCount := Some 2\<rparr>)])" .
  show "attempts (snd (request rc transport 0 cfg [])) = 3"
    by (simp add: res attempts_def)
next
  assume a: "maxRetries rc = 0 \<and> status r1 = 500 \<and> transport 0 cfg = Failed True m1 (Some r1)"
  let ?e = "\<lparr>ae_message = m1, ae_config = Some (cfg\<lparr>retryCount := Some (attemptsSoFar cfg)\<rparr>),
              ae_response = Some r1\<rparr>"
  have "request rc transport 0 cfg [] = (Inl ?e, [Sent cfg])"
    using a request_reject [of transport 0 cfg m1 "Some r1" rc "[]"] by simp
  moreover have "error_class (handleApiError parseInt10 (Thrown_Axios ?e)) = ServerError
             \<and> statusCode (handleApiError parseInt10 (Thrown_Axios ?e)) = Some 500"
    using a handleApiError_server [of ?e r1] by simp
  ultimately show "\<exists>e. request rc transport 0 cfg [] = (Inl e, [Sent cfg])
             \<and> ae_response e = Some r1
             \<and> error_class (handleApiError parseInt10 (Thrown_Axios e)) = ServerError
             \<and> statusCode (handleApiError parseInt10 (Thrown_Axios e)) = Some 500"
    by auto
qed

theorem retry_engine_witness:
  "onRejected DEFAULT_RETRY_CONFIG
     \<lparr>ae_message = ''Request failed'',
      ae_config = Some (get_voicenotes\<lparr>retryCount := Some 2\<rparr>),
      ae_response = Some (response_of 503)\<rparr>
     = Retry 4000 (get_voicenotes\<lparr>retryCount := Some 3\<rparr>)
   \<and> setTimeout_ms 4000 = 4000 \<and> setTimeout_ms 4194304000 = 1
   \<and> request DEFAULT_RETRY_CONFIG
     (scripted [failure_of 500, failure_of 500, Resolved (response_of 200)]) 0 get_voicenotes []
     = (Inr (response_of 200),
        [Sent get_voicenotes, Slept 1000, Sent (get_voicenotes\<lparr>retryCount := Some 1\<rparr>),
         Slept 2000, Sent (get_voicenotes\<lparr>retryCount := Some 2\<rparr>)])
   \<and> (\<exists>e. request (DEFAULT_RETRY_CONFIG\<lparr>maxRetries := 0\<rparr>) (scripted [failure_of 500]) 0
              get_voicenotes [] = (Inl e, [Sent get_voicenotes])
          \<and> error_class (handleApiError (\<lambda>s. NaN) (Thrown_Axios e)) = ServerError)"
proof -
  let ?t = "scripted [failure_of 500, failure_of 500, Resolved (response_of 200)]"
  have t: "\<forall>c. ?t 0 c = Failed True ''Request failed'' (Some (response_of 500))"
    "\<forall>c. ?t 1 c = Failed True ''Request failed'' (Some (response_of 500))"
    "\<forall>c. ?t 2 c = Resolved (response_of 200)"
    "scripted [failure_of 500] 0 get_voicenotes
       = Failed True ''Request failed'' (Some (response_of 500))"
    by (simp_all add: scripted_def failure_of_def)
  have c: "maxRetries DEFAULT_RETRY_CONFIG = 3" "retryDelay DEFAULT_RETRY_CONFIG = 1000"
    "500 \<in> set (retryableStatuses DEFAULT_RETRY_CONFIG)" "retryCount get_voicenotes = None"
    "status (response_of 500) = 500" "status (response_of 200) = 200"
    by (simp_all add: DEFAULT_RETRY_CONFIG_def RETRYABLE_STATUS_CODES_def get_voicenotes_def
          response_of_def)
  have T: "setTimeout_ms 4000 = 4000" "setTimeout_ms 4194304000 = 1"
    "setTimeout_ms 1000 = 1000" "setTimeout_ms 2000 = 2000"
    using retry_engine [where d = 4000] retry_engine [where d = 4194304000]
      retry_engine [where d = 1000] retry_engine [where d = 2000]
    by simp_all
  have S: "onRejected DEFAULT_RETRY_CONFIG
     \<lparr>ae_message = ''Request failed'',
      ae_config = Some (get_voicenotes\<lparr>retryCount := Some 2\<rparr>),
      ae_response = Some (response_of 503)\<rparr>
     = Retry 4000 (get_voicenotes\<lparr>retryCount := Some 3\<rparr>)"
    using retry_engine [where rc = DEFAULT_RETRY_CONFIG
      and err = "\<lparr>ae_message = ''Request failed'',
                  ae_config = Some (get_voicenotes\<lparr>retryCount := Some 2\<rparr>),
                  ae_response = Some (response_of 503)\<rparr>"
      and cfg = "get_voicenotes\<lparr>retryCount := Some 2\<rparr>" and r = "response_of 503"]
    by (simp add: DEFAULT_RETRY_CONFIG_def RETRYABLE_STATUS_CODES_def response_of_def
          attemptsSoFar_def get_voicenotes_def)
  have A: "request DEFAULT_RETRY_CONFIG ?t 0 get_voicenotes []
     = (Inr (response_of 200),
        [Sent get_voicenotes, Slept 1000, Sent (get_voicenotes\<lparr>retryCount := Some 1\<rparr>),
         Slept 2000, Sent (get_voicenotes\<lparr>retryCount := Some 2\<rparr>)])"
    using retry_engine [where rc = DEFAULT_RETRY_CONFIG and transport = ?t
      and cfg = get_voicenotes and ?r1.0 = "response_of 500" and ?r2.0 = "response_of 500"
      and ?r3.0 = "response_of 200" and ?m1.0 = "''Request failed''" and ?m2.0 = "''Request failed''"]
      t c T by simp
  have B: "\<exists>e. request (DEFAULT_RETRY_CONFIG\<lparr>maxRetries := 0\<rparr>) (scripted [failure_of 500]) 0
              get_voicenotes [] = (Inl e, [Sent get_voicenotes])
          \<and> error_class (handleApiError (\<lambda>s. NaN) (Thrown_Axios e)) = ServerError"
    using retry_engine [where rc = "DEFAULT_RETRY_CONFIG\<lparr>maxRetries := 0\<rparr>"
      and transport = "scripted [failure_of 500]"
      and cfg = get_voicenotes and ?r1.0 = "response_of 500"
      and ?m1.0 = "''Request failed''" and ?parseInt10.0 = "\<lambda>s. NaN" and d = 1]
      t c by auto
  from S T A B show ?thesis by blast
qed

text \<open>
  C8: a failure with status 400 is never sent again, for every \<open>maxRetries\<close>, every
  \<open>retryDelay\<close> and every request. 400 is not a retryable status: it is not in the
  retryable set of the engine, \<open>RETRYABLE_STATUS_CODES\<close>. Whenever 400 is not in the
  retryable set, the interceptor rejects the failure at once, and the request is sent
  exactly once and then fails with the 400 response.
\<close>

theorem no_retry_of_400:
  "(400 \<notin> set (retryableStatuses rc) \<and> ae_response err = Some r \<and> status r = 400
      \<longrightarrow> (\<exists>e. onRejected rc err = Reject e))
   \<and> (400 \<notin> set (retryableStatuses rc) \<and> transport n cfg = Failed hc msg (Some r) \<and> status r = 400
      \<longrightarrow> (\<exists>e. request rc transport n cfg log = (Inl e, log @ [Sent cfg])
               \<and> ae_response e = Some r))
   \<and> 400 \<notin> set (retryableStatuses (DEFAULT_RETRY_CONFIG\<lparr>maxRetries := m, retryDelay := d\<rparr>))
   \<and> (transport n cfg = Failed hc msg (Some r) \<and> status r = 400
      \<longrightarrow> (\<exists>e. request (DEFAULT_RETRY_CONFIG\<lparr>maxRetries := m, retryDelay := d\<rparr>) transport n cfg log
                  = (Inl e, log @ [Sent cfg])
               \<and> ae_response e = Some r))"
proof -
  have g: "\<exists>e. request rc' transport n cfg log = (Inl e, log @ [Sent cfg]) \<and> ae_response e = Some r"
    if "400 \<notin> set (retryableStatuses rc')" "transport n cfg = Failed hc msg (Some r)"
      "status r = 400" for rc'
    apply (subst request.simps)
    using that by (cases hc) (simp_all add: onRejected_def Let_def)
  have d: "400 \<notin> set (retryableStatuses (DEFAULT_RETRY_CONFIG\<lparr>maxRetries := m, retryDelay := d\<rparr>))"
    by (simp add: DEFAULT_RETRY_CONFIG_def RETRYABLE_STATUS_CODES_def)
  have o: "\<exists>e. onRejected rc err = Reject e"
    if "400 \<notin> set (retryableStatuses rc) \<and> ae_response err = Some r \<and> status r = 400"
    using that by (cases "ae_config err") (simp_all add: onRejected_def Let_def)
  show ?thesis
    using g [of rc] g [OF d] d o by blast
qed

theorem no_retry_of_400_witness:
  "(\<exists>e. onRejected (DEFAULT_RETRY_CONFIG\<lparr>maxRetries := 10\<rparr>)
           \<lparr>ae_message = [], ae_config = Some get_voicenotes,
            ae_response = Some (response_of 400)\<rparr> = Reject e)
   \<and> (\<exists>e. request (DEFAULT_RETRY_CONFIG\<lparr>maxRetries := 10, retryDelay := 1000\<rparr>)
           (scripted [failure_of 400]) 0 get_voicenotes [] = (Inl e, [Sent get_voicenotes])
        \<and> ae_response e = Some (response_of 400))"
  using no_retry_of_400 [where rc = "DEFAULT_RETRY_CONFIG\<lparr>maxRetries := 10\<rparr>"
      and transport = "scripted [failure_of 400]" and n = 0 and cfg = get_voicenotes
      and hc = True and msg = "''Request failed''" and r = "response_of 400" and log = "[]"
      and err = "\<lparr>ae_message = [], ae_config = Some get_voicenotes,
                  ae_response = Some (response_of 400)\<rparr>"
      and m = 10 and d = 1000]
  by (simp add: scripted_def failure_of_def response_of_def DEFAULT_RETRY_CONFIG_def
        RETRYABLE_STATUS_CODES_def)

section \<open>Classification of not-found responses\<close>




















section \<open>The webhook validator\<close>

lemma unhex_hex_digit: "n < 16 \<Longrightarrow> unhex (hex_digit n) = Some n"
  by (auto simp: unhex_def hex_digit_def Let_def)

lemma unhex_s: "unhex (CHR ''s'') = None"
  by (simp add: unhex_def)

lemma byte_nibbles: "unat (b :: byte) div 16 < 16" "unat b mod 16 < 16"
proof -
  have "unat b < 256" using unsigned_less [of b] by simp
  then show "unat b div 16 < 16" by simp
  show "unat b mod 16 < 16" by simp
qed

lemma Buffer_from_hex_encode: "Buffer_from_hex (hex_encode bs) = bs"
proof (induction bs)
  case Nil
  then show ?case by (simp add: hex_encode_def)
next
  case (Cons b bs)
  have "(of_nat (16 * (unat b div 16) + unat b mod 16) :: byte) = b"
    by simp
  with Cons show ?case
    by (simp add: hex_encode_def unhex_hex_digit byte_nibbles)
qed

lemma hex_encode_no_prefix: "\<not> prefix ''sha256='' (hex_encode bs)"
proof (cases bs)
  case Nil
  then show ?thesis by (simp add: hex_encode_def)
next
  case (Cons b bs')
  show ?thesis
  proof
    assume "prefix ''sha256='' (hex_encode bs)"
    then have "hex_digit (unat b div 16) = CHR ''s''"
      using Cons by (simp add: hex_encode_def)
    then have "unhex (CHR ''s'') = Some (unat b div 16)"
      using unhex_hex_digit [OF byte_nibbles(1), of b] by simp
    then show False by (simp add: unhex_s)
  qed
qed

lemma hex_encode_inj: "hex_encode a = hex_encode b \<Longrightarrow> a = b"
  by (metis Buffer_from_hex_encode)

lemma length_be_bytes: "length (be_bytes w) = 4"
  by (simp add: be_bytes_def)

lemma length_sha256: "length (sha256 m) = 32"
proof -
  obtain a b c d e f g h where
    "foldl compress H256_init (chunks 64 (sha_pad m)) = (a, b, c, d, e, f, g, h)"
    by (metis prod_cases3)
  then show ?thesis by (simp add: sha256_def length_be_bytes)
qed

lemma length_hmac_sha256: "length (hmac_sha256 k m) = 32"
  by (simp add: hmac_sha256_def Let_def length_sha256)

lemma length_Buffer_from_hex: "length (Buffer_from_hex s) \<le> length s div 2"
  by (induction s rule: Buffer_from_hex.induct) (auto split: option.splits)

lemma length_Buffer_from_hex_all:
  "\<forall>c\<in>set s. unhex c \<noteq> None \<Longrightarrow> length (Buffer_from_hex s) = length s div 2"
  by (induction s rule: Buffer_from_hex.induct) (auto split: option.splits)

lemma buildStringToSign_plain: "buildStringToSign c None None = c"
  by (simp add: buildStringToSign_def truthy_def)

text \<open>What \<open>validate\<close> computes: the decoded signature is compared with the digest.\<close>

lemma validate_eq:
  "validate authToken pl sg options =
     Inr (Buffer_from_hex (if prefix ''sha256='' sg then drop 7 sg else sg)
          = hmac_sha256 (bytes_of authToken)
              (bytes_of (buildStringToSign pl (opt_field timestamp options)
                           (opt_field deliveryId options))))"
  by (auto simp: validate_def computeSignature_def Let_def buildStringToSign_plain
        Buffer_from_hex_encode timingSafeEqual_def opt_field_def split: option.splits)

lemma validate_computed:
  "validate authToken' pl' (computeSignature authToken pl ts did) options =
     Inr (hmac_sha256 (bytes_of authToken) (bytes_of (buildStringToSign pl ts did))
          = hmac_sha256 (bytes_of authToken')
              (bytes_of (buildStringToSign pl' (opt_field timestamp options)
                           (opt_field deliveryId options))))"
  unfolding validate_eq
  by (simp add: computeSignature_def Let_def hex_encode_no_prefix Buffer_from_hex_encode)
















text \<open>
  C4: for every payload, signature string, secret and options, \<open>validate\<close> returns a
  boolean and no exception escapes it. When the decoded provided signature and the decoded
  expected signature differ in length, in particular when the provided one does not decode
  to 32 bytes, the result is false. Every signature string of 3 characters and every string
  of 200 hexadecimal digits is rejected with false.
\<close>

theorem validate_never_raises:
  "(\<exists>b. validate S pl sg options = Inr b)
   \<and> (length (Buffer_from_hex (if prefix ''sha256='' sg then drop 7 sg else sg))
        \<noteq> length (Buffer_from_hex
             (computeSignature S
                (buildStringToSign pl (opt_field timestamp options) (opt_field deliveryId options))
                None None))
      \<longrightarrow> validate S pl sg options = Inr False)
   \<and> (length (Buffer_from_hex (if prefix ''sha256='' sg then drop 7 sg else sg)) \<noteq> 32
      \<longrightarrow> validate S pl sg options = Inr False)
   \<and> (length sg = 3 \<longrightarrow> validate S pl sg options = Inr False)
   \<and> (length sg = 200 \<and> (\<forall>c\<in>set sg. unhex c \<noteq> None) \<longrightarrow> validate S pl sg options = Inr False)"
proof (intro conjI impI)
  let ?p = "if prefix ''sha256='' sg then drop 7 sg else sg"
  let ?h = "hmac_sha256 (bytes_of S)
              (bytes_of (buildStringToSign pl (opt_field timestamp options)
                           (opt_field deliveryId options)))"
  have v: "validate S pl sg options = Inr (Buffer_from_hex ?p = ?h)"
    by (rule validate_eq)
  show "\<exists>b. validate S pl sg options = Inr b"
    using v by blast
  have x: "Buffer_from_hex (computeSignature S
                (buildStringToSign pl (opt_field timestamp options) (opt_field deliveryId options))
                None None) = ?h"
    by (simp add: computeSignature_def Buffer_from_hex_encode buildStringToSign_plain)
  {
    assume "length (Buffer_from_hex ?p)
        \<noteq> length (Buffer_from_hex
             (computeSignature S
                (buildStringToSign pl (opt_field timestamp options) (opt_field deliveryId options))
                None None))"
    then have "Buffer_from_hex ?p \<noteq> ?h" unfolding x by auto
    then show "validate S pl sg options = Inr False" using v by simp
  }
  have l: "length (Buffer_from_hex ?p) \<noteq> 32 \<Longrightarrow> validate S pl sg options = Inr False"
  proof -
    assume "length (Buffer_from_hex ?p) \<noteq> 32"
    then have "Buffer_from_hex ?p \<noteq> ?h" using length_hmac_sha256 by metis
    then show ?thesis using v by simp
  qed
  {
    assume "length (Buffer_from_hex ?p) \<noteq> 32"
    then show "validate S pl sg options = Inr False" by (rule l)
  }
  {
    assume a: "length sg = 3"
    then have "\<not> prefix ''sha256='' sg" by (auto dest: prefix_length_le)
    then have "length (Buffer_from_hex ?p) \<le> 1"
      using length_Buffer_from_hex [of sg] a by simp
    then show "validate S pl sg options = Inr False" by (intro l) simp
  }
  {
    assume a: "length sg = 200 \<and> (\<forall>c\<in>set sg. unhex c \<noteq> None)"
    have "\<not> prefix ''sha256='' sg"
    proof
      assume "prefix ''sha256='' sg"
      then have "CHR ''s'' \<in> set sg" by (auto simp: prefix_def)
      with a show False by (auto simp: unhex_s)
    qed
    then have "length (Buffer_from_hex ?p) = 100"
      using length_Buffer_from_hex_all [of sg] a by simp
    then show "validate S pl sg options = Inr False" by (intro l) simp
  }
qed

theorem validate_never_raises_witness:
  "validate ''whsec'' ''{}'' ''abc'' None = Inr False
   \<and> validate ''whsec'' ''{}'' (replicate 200 (CHR ''a'')) None = Inr False"
  using validate_never_raises [of "''whsec''" "''{}''" "''abc''" None]
    validate_never_raises [of "''whsec''" "''{}''" "replicate 200 (CHR ''a'')" None]
  by (simp add: unhex_def)

text \<open>
  C5, as stated, fails for a timestamp that is given as the empty string: the canonical
  string is then the payload alone, not \<open>"." + payload\<close>, and the signature equals the one
  computed without a timestamp.
\<close>

theorem empty_timestamp_counterexample:
  "buildStringToSign ''p'' (Some []) None \<noteq> [] @ ''.'' @ ''p''
   \<and> computeSignature ''k'' ''p'' (Some []) None = computeSignature ''k'' ''p'' None None"
  by (simp add: computeSignature_def buildStringToSign_def truthy_def)

text \<open>
  C5, amended: the canonical string is \<open>timestamp.deliveryId.payload\<close> when timestamp and
  delivery id are both given and not empty, \<open>timestamp.payload\<close> when the timestamp is
  given and not empty and the delivery id is absent or empty, and the payload otherwise;
  the signature is the lowercase hexadecimal HMAC-SHA256 digest of it. For a timestamp that
  is not empty the canonical string differs from the payload; the signature equals the one
  computed without a timestamp exactly when the digests of these two different strings
  coincide, and validating without the timestamp returns true exactly in that case.
\<close>

theorem canonical_string:
  "(ts \<noteq> [] \<and> did \<noteq> []
      \<longrightarrow> buildStringToSign pl (Some ts) (Some did) = ts @ ''.'' @ did @ ''.'' @ pl)
   \<and> (ts \<noteq> [] \<and> (d = None \<or> d = Some [])
      \<longrightarrow> buildStringToSign pl (Some ts) d = ts @ ''.'' @ pl)
   \<and> (t = None \<or> t = Some [] \<longrightarrow> buildStringToSign pl t d = pl)
   \<and> computeSignature S pl t d
       = hex_encode (hmac_sha256 (bytes_of S) (bytes_of (buildStringToSign pl t d)))
   \<and> (ts \<noteq> []
      \<longrightarrow> buildStringToSign pl (Some ts) d \<noteq> pl
        \<and> (computeSignature S pl (Some ts) d = computeSignature S pl None None
             \<longleftrightarrow> hmac_sha256 (bytes_of S) (bytes_of (buildStringToSign pl (Some ts) d))
                 = hmac_sha256 (bytes_of S) (bytes_of pl))
        \<and> validate S pl (computeSignature S pl (Some ts) d) None
            = Inr (hmac_sha256 (bytes_of S) (bytes_of (buildStringToSign pl (Some ts) d))
                   = hmac_sha256 (bytes_of S) (bytes_of pl)))"
proof (intro conjI impI)
  show "computeSignature S pl t d
       = hex_encode (hmac_sha256 (bytes_of S) (bytes_of (buildStringToSign pl t d)))"
    by (simp add: computeSignature_def)
  show "computeSignature S pl (Some ts) d = computeSignature S pl None None
             \<longleftrightarrow> hmac_sha256 (bytes_of S) (bytes_of (buildStringToSign pl (Some ts) d))
                 = hmac_sha256 (bytes_of S) (bytes_of pl)"
    by (auto simp: computeSignature_def buildStringToSign_plain dest: hex_encode_inj)
  show "validate S pl (computeSignature S pl (Some ts) d) None
            = Inr (hmac_sha256 (bytes_of S) (bytes_of (buildStringToSign pl (Some ts) d))
                   = hmac_sha256 (bytes_of S) (bytes_of pl))"
    by (simp add: validate_computed opt_field_def buildStringToSign_plain)
  {
    assume "ts \<noteq> []"
    then have "length (buildStringToSign pl (Some ts) d) \<noteq> length pl"
      by (simp add: buildStringToSign_def truthy_def)
    then show "buildStringToSign pl (Some ts) d \<noteq> pl" by auto
  }
qed (auto simp: buildStringToSign_def truthy_def)

theorem canonical_string_witness:
  "buildStringToSign ''{}'' (Some ''1700000000'') (Some ''d1'') = ''1700000000.d1.{}''
   \<and> buildStringToSign ''{}'' (Some ''1700000000'') None = ''1700000000.{}''
   \<and> buildStringToSign ''{}'' None (Some ''d1'') = ''{}''
   \<and> buildStringToSign ''{}'' (Some ''1700000000'') None \<noteq> ''{}''"
  using canonical_string [where ts = "''1700000000''" and did = "''d1''" and pl = "''{}''"
      and d = None and t = None and S = "''whsec''"]
    canonical_string [where ts = "''1700000000''" and did = "''d1''" and pl = "''{}''"
      and d = "Some ''d1''" and t = None and S = "''whsec''"]
  by simp


section \<open>Auto-pagination\<close>

lemma gen_next_yield:
  "gen g = InPage (x # xs) hm p \<Longrightarrow>
   gen_next pI http opts g = Some (Yield x, g\<lparr>gen := InPage xs hm p\<rparr>)"
  by (subst gen_next.simps) simp

lemma gen_next_page_end:
  "gen g = InPage [] hm p \<Longrightarrow>
   gen_next pI http opts g = gen_next pI http opts (g\<lparr>gen := LoopHead (p + 1) hm\<rparr>)"
  by (subst gen_next.simps) simp

lemma gen_next_fetch:
  "gen g = LoopHead p True \<Longrightarrow>
   http (length (sent g)) ''voicenotes'' (list_query (with_page opts p)) = Inr r \<Longrightarrow>
   gen_next pI http opts g
     = gen_next pI http opts
         \<lparr>gen = InPage (data r) (case pagination r of None \<Rightarrow> False | Some pg \<Rightarrow> has_more pg) p,
          sent = sent g @ [list_query (with_page opts p)]\<rparr>"
  by (subst gen_next.simps) (simp add: list_voicenotes_def get_request_def)

lemma gen_next_done:
  "gen g = LoopHead p False \<Longrightarrow> gen_next pI http opts g = Some (Done, g\<lparr>gen := Completed\<rparr>)"
  by (subst gen_next.simps) simp

lemma for_await_yield:
  "gen_next pI http opts g = Some (Yield x, g') \<Longrightarrow> \<not> brk (acc @ [x]) \<Longrightarrow>
   for_await pI http opts brk g acc = for_await pI http opts brk g' (acc @ [x])"
  by (subst for_await.simps) simp

lemma for_await_break:
  "gen_next pI http opts g = Some (Yield x, g') \<Longrightarrow> brk (acc @ [x]) \<Longrightarrow>
   for_await pI http opts brk g acc = Some (Inr (acc @ [x]), g'\<lparr>gen := Completed\<rparr>)"
  by (subst for_await.simps) simp

lemma for_await_done:
  "gen_next pI http opts g = Some (Done, g') \<Longrightarrow>
   for_await pI http opts brk g acc = Some (Inr acc, g')"
  by (subst for_await.simps) simp

text \<open>
  C6: let the list request for the starting page return two items with \<open>has_more = true\<close>
  and the request for the next page two items with \<open>has_more = false\<close>. Then iterating to
  completion terminates, yields exactly the four items in request order and makes exactly
  those two list requests; leaving the loop after the second item yields the first two
  items and makes only the first request. No request is made before the first item is
  demanded; the first and the second \<open>next()\<close> make one request in all, and the second
  page is requested only by the third \<open>next()\<close>.
\<close>

theorem auto_pagination:
  fixes http :: "'v http_get"
  assumes p0: "p0 = or_number (opt_field page opts) 0"
    and q: "q0 = list_query (with_page opts p0)" "q1 = list_query (with_page opts (p0 + 1))"
    and r1: "http 0 ''voicenotes'' q0 = Inr r1" "data r1 = [a, b]"
      "pagination r1 = Some pg1" "has_more pg1"
    and r2: "http 1 ''voicenotes'' q1 = Inr r2" "data r2 = [c, d]"
      "pagination r2 = Some pg2" "\<not> has_more pg2"
  shows "for_await pI http opts never (iterate opts) []
           = Some (Inr [a, b, c, d], \<lparr>gen = Completed, sent = [q0, q1]\<rparr>)
    \<and> for_await pI http opts (at_least 2) (iterate opts) []
           = Some (Inr [a, b], \<lparr>gen = Completed, sent = [q0]\<rparr>)
    \<and> sent (iterate opts :: 'v generator) = []
    \<and> gen_next pI http opts (iterate opts)
           = Some (Yield a, \<lparr>gen = InPage [b] True p0, sent = [q0]\<rparr>)
    \<and> gen_next pI http opts \<lparr>gen = InPage [b] True p0, sent = [q0]\<rparr>
           = Some (Yield b, \<lparr>gen = InPage [] True p0, sent = [q0]\<rparr>)
    \<and> gen_next pI http opts \<lparr>gen = InPage [] True p0, sent = [q0]\<rparr>
           = Some (Yield c, \<lparr>gen = InPage [d] False (p0 + 1), sent = [q0, q1]\<rparr>)"
proof -
  let ?g0 = "\<lparr>gen = LoopHead p0 True, sent = []\<rparr> :: 'v generator"
  let ?g1 = "\<lparr>gen = InPage [b] True p0, sent = [q0]\<rparr>"
  let ?g2 = "\<lparr>gen = InPage [] True p0, sent = [q0]\<rparr>"
  let ?g3 = "\<lparr>gen = InPage [d] False (p0 + 1), sent = [q0, q1]\<rparr>"
  let ?g4 = "\<lparr>gen = InPage [] False (p0 + 1), sent = [q0, q1]\<rparr>"
  let ?g5 = "\<lparr>gen = Completed, sent = [q0, q1]\<rparr> :: 'v generator"
  have i: "iterate opts = ?g0" by (simp add: iterate_def p0)
  have n0: "gen_next pI http opts ?g0 = Some (Yield a, ?g1)"
    using gen_next_fetch [of ?g0 p0 http opts r1 pI] r1 q
    by (simp add: gen_next_yield)
  have n1: "gen_next pI http opts ?g1 = Some (Yield b, ?g2)"
    by (simp add: gen_next_yield)
  have n2: "gen_next pI http opts ?g2 = Some (Yield c, ?g3)"
    using gen_next_fetch [of "\<lparr>gen = LoopHead (p0 + 1) True, sent = [q0]\<rparr>" "p0 + 1" http opts r2 pI]
      gen_next_page_end [of ?g2 True p0 pI http opts]
      gen_next_yield [of "\<lparr>gen = InPage [c, d] False (p0 + 1), sent = [q0, q1]\<rparr>" c "[d]" False
        "p0 + 1" pI http opts]
      r2 q
    by simp
  have n3: "gen_next pI http opts ?g3 = Some (Yield d, ?g4)"
    using gen_next_yield [of ?g3 d "[]" False "p0 + 1" pI http opts] by simp
  have n4: "gen_next pI http opts ?g4 = Some (Done, ?g5)"
    using gen_next_page_end [of ?g4 False "p0 + 1" pI http opts]
      gen_next_done [of "\<lparr>gen = LoopHead (p0 + 1 + 1) False, sent = [q0, q1]\<rparr>" "p0 + 1 + 1"
        pI http opts]
    by simp
  have all: "for_await pI http opts never ?g0 [] = Some (Inr [a, b, c, d], ?g5)"
    using for_await_yield [OF n0, of never "[]"] for_await_yield [OF n1, of never "[a]"]
      for_await_yield [OF n2, of never "[a, b]"] for_await_yield [OF n3, of never "[a, b, c]"]
      for_await_done [OF n4, of never "[a, b, c, d]"]
    by (simp add: never_def)
  have brk: "for_await pI http opts (at_least 2) ?g0 []
      = Some (Inr [a, b], \<lparr>gen = Completed, sent = [q0]\<rparr>)"
    using for_await_yield [OF n0, of "at_least 2" "[]"] for_await_break [OF n1, of "at_least 2" "[a]"]
    by (simp add: at_least_def)
  have s: "sent (iterate opts :: 'v generator) = []" by (simp add: iterate_def)
  show ?thesis
    using all brk n0 n1 n2 s by (simp add: i)
qed

theorem auto_pagination_witness:
  "(\<exists>g. for_await (\<lambda>s. NaN) two_pages None never (iterate None) []
           = Some (Inr [''vn_1'', ''vn_2'', ''vn_3'', ''vn_4''], g) \<and> length (sent g) = 2)
   \<and> (\<exists>g. for_await (\<lambda>s. NaN) two_pages None (at_least 2) (iterate None) []
           = Some (Inr [''vn_1'', ''vn_2''], g) \<and> length (sent g) = 1)"
proof -
  let ?r1 = "\<lparr>data = [''vn_1'', ''vn_2''],
              pagination = Some \<lparr>pg_page = 0, pg_limit = 50, pg_total = 4, has_more = True\<rparr>\<rparr>"
  let ?r2 = "\<lparr>data = [''vn_3'', ''vn_4''],
              pagination = Some \<lparr>pg_page = 1, pg_limit = 50, pg_total = 4, has_more = False\<rparr>\<rparr>"
  have q: "list_query (with_page None 0)
             = \<lparr>p_page = 0, p_limit = 50, p_status = None, p_date_from = None, p_date_to = None\<rparr>"
    "list_query (with_page None 1)
             = \<lparr>p_page = 1, p_limit = 50, p_status = None, p_date_from = None, p_date_to = None\<rparr>"
    by (simp_all add: list_query_def with_page_def opt_field_def or_number_def
          PAGE_LIMIT_def MAX_PAGE_LIMIT_def if_truthy_def truthy_def)
  have "for_await (\<lambda>s. NaN) two_pages None never (iterate None) []
           = Some (Inr [''vn_1'', ''vn_2'', ''vn_3'', ''vn_4''],
                   \<lparr>gen = Completed,
                    sent = [list_query (with_page None 0), list_query (with_page None 1)]\<rparr>)
    \<and> for_await (\<lambda>s. NaN) two_pages None (at_least 2) (iterate None) []
           = Some (Inr [''vn_1'', ''vn_2''],
                   \<lparr>gen = Completed, sent = [list_query (with_page None 0)]\<rparr>)"
    using auto_pagination [where opts = None and ?p0.0 = 0 and http = two_pages
      and ?q0.0 = "list_query (with_page None 0)" and ?q1.0 = "list_query (with_page None 1)"
      and ?r1.0 = ?r1 and ?r2.0 = ?r2
      and a = "''vn_1''" and b = "''vn_2''" and c = "''vn_3''" and d = "''vn_4''"
      and ?pg1.0 = "\<lparr>pg_page = 0, pg_limit = 50, pg_total = 4, has_more = True\<rparr>"
      and ?pg2.0 = "\<lparr>pg_page = 1, pg_limit = 50, pg_total = 4, has_more = False\<rparr>"
      and pI = "\<lambda>s. NaN"]
    by (simp add: q two_pages_def opt_field_def or_number_def)
  then show ?thesis by simp
qed


end
